theory Spec2Isabelle
  imports Complex_Main
begin

section \<open>JavaScript values\<close>

text \<open>
  The services in \<^verbatim>\<open>src/services/colors.js\<close> are dynamically typed, so the embedding
  works on a datatype of the JavaScript values the code can meet: \<^verbatim>\<open>undefined\<close>,
  numbers, strings and arrays.  A number is an exact real, one of the two infinities, or
  \<^verbatim>\<open>NaN\<close>; rounding, overflow and the sign of zero are not modelled.  A string is a
  list of code units below 256, and its \<^verbatim>\<open>length\<close> is the length of that list.
\<close>

datatype jsnum = Fin real | PInf | NInf | NaN

datatype jsval = Undefined | Num jsnum | Str string | Arr "jsval list"

datatype error = TypeError

definition bind_err :: "error + 'a \<Rightarrow> ('a \<Rightarrow> error + 'b) \<Rightarrow> error + 'b" where
  "bind_err m f = (case m of Inl e \<Rightarrow> Inl e | Inr x \<Rightarrow> f x)"

fun typeof :: "jsval \<Rightarrow> string" where
  "typeof Undefined = ''undefined''"
| "typeof (Num n) = ''number''"
| "typeof (Str s) = ''string''"
| "typeof (Arr xs) = ''object''"

text \<open>\<^verbatim>\<open>xs[i]\<close>: reading past the end of an array gives \<^verbatim>\<open>undefined\<close>.\<close>

definition js_index :: "jsval list \<Rightarrow> nat \<Rightarrow> jsval" where
  "js_index xs i = (if i < length xs then xs ! i else Undefined)"

subsection \<open>Number arithmetic and comparison\<close>

definition inf_of :: "real \<Rightarrow> jsnum" where
  "inf_of s = (if 0 < s then PInf else if s < 0 then NInf else NaN)"

fun num_sign :: "jsnum \<Rightarrow> real" where
  "num_sign (Fin x) = sgn x"
| "num_sign PInf = 1"
| "num_sign NInf = - 1"
| "num_sign NaN = 0"

fun num_add :: "jsnum \<Rightarrow> jsnum \<Rightarrow> jsnum" where
  "num_add NaN b = NaN"
| "num_add a NaN = NaN"
| "num_add (Fin x) (Fin y) = Fin (x + y)"
| "num_add PInf NInf = NaN"
| "num_add NInf PInf = NaN"
| "num_add (Fin x) b = b"
| "num_add a b = a"

fun num_mul :: "jsnum \<Rightarrow> jsnum \<Rightarrow> jsnum" where
  "num_mul NaN b = NaN"
| "num_mul a NaN = NaN"
| "num_mul (Fin x) (Fin y) = Fin (x * y)"
| "num_mul a b = inf_of (num_sign a * num_sign b)"

text \<open>
  Division: a finite number over zero is an infinity of the sign of the numerator
  (\<^verbatim>\<open>0 / 0\<close> is \<^verbatim>\<open>NaN\<close>), a finite number over an infinity is zero.
\<close>

fun num_div :: "jsnum \<Rightarrow> jsnum \<Rightarrow> jsnum" where
  "num_div NaN b = NaN"
| "num_div a NaN = NaN"
| "num_div (Fin x) (Fin y) = (if y = 0 then inf_of x else Fin (x / y))"
| "num_div (Fin x) b = Fin 0"
| "num_div a (Fin y) = inf_of (num_sign a * (if 0 \<le> y then 1 else - 1))"
| "num_div a b = NaN"

text \<open>\<^verbatim>\<open>Math.pow(x, 2.4)\<close>: the exponent is positive and not an integer.\<close>

fun num_pow_2_4 :: "jsnum \<Rightarrow> jsnum" where
  "num_pow_2_4 (Fin x) = (if x < 0 then NaN else Fin (x powr 2.4))"
| "num_pow_2_4 PInf = PInf"
| "num_pow_2_4 NInf = PInf"
| "num_pow_2_4 NaN = NaN"

text \<open>Every comparison with \<^verbatim>\<open>NaN\<close> is false.\<close>

fun num_le :: "jsnum \<Rightarrow> jsnum \<Rightarrow> bool" where
  "num_le NaN b = False"
| "num_le a NaN = False"
| "num_le NInf b = True"
| "num_le a PInf = True"
| "num_le (Fin x) (Fin y) = (x \<le> y)"
| "num_le a b = False"

definition num_lt :: "jsnum \<Rightarrow> jsnum \<Rightarrow> bool" where
  "num_lt a b = (num_le a b \<and> \<not> num_le b a)"

definition num_ge :: "jsnum \<Rightarrow> jsnum \<Rightarrow> bool" where
  "num_ge a b = num_le b a"

definition num_gt :: "jsnum \<Rightarrow> jsnum \<Rightarrow> bool" where
  "num_gt a b = num_lt b a"

definition isNaN :: "jsnum \<Rightarrow> bool" where
  "isNaN n = (n = NaN)"

subsection \<open>Hexadecimal literals\<close>

definition hex_digit_table :: "(char \<times> nat) list" where
  "hex_digit_table =
     [(CHR ''0'', 0), (CHR ''1'', 1), (CHR ''2'', 2), (CHR ''3'', 3), (CHR ''4'', 4),
      (CHR ''5'', 5), (CHR ''6'', 6), (CHR ''7'', 7), (CHR ''8'', 8), (CHR ''9'', 9),
      (CHR ''a'', 10), (CHR ''b'', 11), (CHR ''c'', 12), (CHR ''d'', 13), (CHR ''e'', 14),
      (CHR ''f'', 15), (CHR ''A'', 10), (CHR ''B'', 11), (CHR ''C'', 12), (CHR ''D'', 13),
      (CHR ''E'', 14), (CHR ''F'', 15)]"

definition is_hex_digit :: "char \<Rightarrow> bool" where
  "is_hex_digit c = (map_of hex_digit_table c \<noteq> None)"

definition hex_digit_value :: "char \<Rightarrow> nat" where
  "hex_digit_value c = (case map_of hex_digit_table c of Some d \<Rightarrow> d | None \<Rightarrow> 0)"

text \<open>
  The white space that the string-to-number conversion strips: TAB, LF, VT, FF, CR, SP
  and NBSP (the members of \<^verbatim>\<open>StrWhiteSpaceChar\<close> below 256).
\<close>

definition is_StrWhiteSpaceChar :: "char \<Rightarrow> bool" where
  "is_StrWhiteSpaceChar c = ((of_char c :: nat) \<in> {9, 10, 11, 12, 13, 32, 160})"

definition trim_end :: "string \<Rightarrow> string" where
  "trim_end s = rev (dropWhile is_StrWhiteSpaceChar (rev s))"

text \<open>
  \<^verbatim>\<open>Number("0x" + s)\<close>.  The text begins with \<^verbatim>\<open>0x\<close>, so there is no leading
  white space to strip and the only numeric literal it can be is a hexadecimal integer:
  after the trailing white space is stripped, what follows \<^verbatim>\<open>0x\<close> must be one or
  more hexadecimal digits, and anything else gives \<^verbatim>\<open>NaN\<close>.
\<close>

definition Number_0x :: "string \<Rightarrow> jsnum" where
  "Number_0x s =
     (let t = trim_end s
      in if t \<noteq> [] \<and> list_all is_hex_digit t
         then Fin (real (foldl (\<lambda>acc c. 16 * acc + hex_digit_value c) 0 t))
         else NaN)"

section \<open>Model registry: \<^verbatim>\<open>getColorProperties\<close>\<close>

text \<open>
  The fields of a model's properties that the validator reads: \<^verbatim>\<open>inputLength\<close> and
  \<^verbatim>\<open>inputMaxLength\<close>.  The latter is called with no argument (\<open>None\<close>) or with a
  channel index; only the \<^verbatim>\<open>hsl\<close> entry looks at it, returning the whole table when it
  is absent and \<^verbatim>\<open>length[i]\<close> otherwise.  The formatting members \<^verbatim>\<open>toString\<close> and
  \<^verbatim>\<open>toArray\<close> are defined further down, with the collaborators they call.
\<close>

record properties =
  inputLength :: nat
  inputMaxLength :: "nat option \<Rightarrow> jsval"
  inputType :: string

definition getColorProperties :: "string \<Rightarrow> properties option" where
  "getColorProperties type =
     (if type = ''hex'' then
        Some \<lparr>inputLength = 1, inputMaxLength = (\<lambda>i. Num (Fin 6)), inputType = ''text''\<rparr>
      else if type = ''rgb'' then
        Some \<lparr>inputLength = 3, inputMaxLength = (\<lambda>i. Num (Fin 255)), inputType = ''number''\<rparr>
      else if type = ''hsl'' then
        Some \<lparr>inputLength = 3,
              inputMaxLength = (\<lambda>i. let length = [Num (Fin 360), Num (Fin 100), Num (Fin 100)]
                                    in case i of None \<Rightarrow> Arr length
                                       | Some k \<Rightarrow> js_index length k),
              inputType = ''number''\<rparr>
      else if type = ''cmyk'' then
        Some \<lparr>inputLength = 4, inputMaxLength = (\<lambda>i. Num (Fin 100)), inputType = ''number''\<rparr>
      else None)"

section \<open>Validator: \<^verbatim>\<open>colorValidate\<close>\<close>

text \<open>
  \<^verbatim>\<open>item <= bound\<close> for a bound that the registry supplies; the bounds are numbers, and
  the comparison is only reached when \<^verbatim>\<open>typeof item === "number"\<close>.
\<close>

fun js_le :: "jsval \<Rightarrow> jsval \<Rightarrow> bool" where
  "js_le (Num a) (Num b) = num_le a b"
| "js_le a b = False"

text \<open>
  The result is \<open>None\<close> where the \<^verbatim>\<open>switch\<close> falls through its \<^verbatim>\<open>default\<close> and the
  function returns \<^verbatim>\<open>undefined\<close>.  The registry knows each of the four tags, so the
  \<open>None\<close> branch of a lookup is never taken.  The callback of the \<^verbatim>\<open>hsl\<close> filter takes
  the index with the item, the other two take the item alone.
\<close>

definition colorValidate :: "string \<Rightarrow> jsval \<Rightarrow> bool option" where
  "colorValidate from v =
     (if from = ''hex'' then
        (case getColorProperties ''hex'' of
           None \<Rightarrow> None
         | Some hex \<Rightarrow>
             (let v1 = (case v of
                          Arr xs \<Rightarrow> if length xs = inputLength hex then js_index xs 0 else v
                        | _ \<Rightarrow> v)
              in Some (case v1 of
                         Str s \<Rightarrow> Num (Fin (real (length s))) = inputMaxLength hex None \<and>
                                  \<not> isNaN (Number_0x s)
                       | _ \<Rightarrow> False)))
      else if from = ''rgb'' then
        (case getColorProperties ''rgb'' of
           None \<Rightarrow> None
         | Some rgb \<Rightarrow>
             Some (case v of
                     Arr xs \<Rightarrow>
                       if length xs = inputLength rgb then
                         (let mapValue =
                            filter (\<lambda>item. typeof item = ''number'' \<and>
                                      js_le item (inputMaxLength rgb None)) xs
                          in if length mapValue = inputLength rgb then True else False)
                       else False
                   | _ \<Rightarrow> False))
      else if from = ''hsl'' then
        (case getColorProperties ''hsl'' of
           None \<Rightarrow> None
         | Some hsl \<Rightarrow>
             Some (case v of
                     Arr xs \<Rightarrow>
                       if length xs = inputLength hsl then
                         (let mapValue =
                            filter (\<lambda>(index, item). typeof item = ''number'' \<and>
                                      js_le item (inputMaxLength hsl (Some index)))
                                   (enumerate 0 xs)
                          in if length mapValue = inputLength hsl then True else False)
                       else False
                   | _ \<Rightarrow> False))
      else if from = ''cmyk'' then
        (case getColorProperties ''cmyk'' of
           None \<Rightarrow> None
         | Some cmyk \<Rightarrow>
             Some (case v of
                     Arr xs \<Rightarrow>
                       if length xs = inputLength cmyk then
                         (let mapValue =
                            filter (\<lambda>item. typeof item = ''number'' \<and>
                                      js_le item (inputMaxLength cmyk None)) xs
                          in if length mapValue = inputLength cmyk then True else False)
                       else False
                   | _ \<Rightarrow> False))
      else None)"

section \<open>Collaborators\<close>

text \<open>
  The pairwise conversions (\<^verbatim>\<open>./converter\<close>), the gradient interpolation
  (\<^verbatim>\<open>gradstop\<close>) and the array normalisation (\<^verbatim>\<open>normalize\<close> of \<^verbatim>\<open>./utils\<close>) are
  imported by the module and are parameters of the model, as are the two conversions of
  the language between numbers and text in general.  Each is a pure function that
  returns.  The specification gives \<^verbatim>\<open>normalize\<close> as a function from a sequence to a
  sequence of integers and the interpolation as one to a sequence of colours, so the
  result of either is a list.
\<close>

record gradstop_options =
  stops :: nat
  inputFormat :: string
  colorArray :: "jsval list"

record env =
  hex_toRgb :: "jsval \<Rightarrow> jsval"
  hex_toHsl :: "jsval \<Rightarrow> jsval"
  hex_toCmyk :: "jsval \<Rightarrow> jsval"
  rgb_toHex :: "jsval \<Rightarrow> jsval"
  rgb_toHsl :: "jsval \<Rightarrow> jsval"
  rgb_toCmyk :: "jsval \<Rightarrow> jsval"
  hsl_toHex :: "jsval \<Rightarrow> jsval"
  hsl_toRgb :: "jsval \<Rightarrow> jsval"
  hsl_toCmyk :: "jsval \<Rightarrow> jsval"
  cmyk_toHex :: "jsval \<Rightarrow> jsval"
  cmyk_toRgb :: "jsval \<Rightarrow> jsval"
  cmyk_toHsl :: "jsval \<Rightarrow> jsval"
  gradstop :: "gradstop_options \<Rightarrow> jsval list"
  normalize_js :: "jsval \<Rightarrow> jsval list"
  StringToNumber :: "string \<Rightarrow> jsnum"
  NumberToString :: "jsnum \<Rightarrow> string"

subsection \<open>Conversions between values, text and numbers\<close>

fun join_strings :: "string \<Rightarrow> string list \<Rightarrow> string" where
  "join_strings sep [] = []"
| "join_strings sep [x] = x"
| "join_strings sep (x # y # ys) = x @ sep @ join_strings sep (y # ys)"

text \<open>
  \<^verbatim>\<open>`${v}`\<close> and \<^verbatim>\<open>String(v)\<close>.  An array is its elements joined by commas, where an
  \<^verbatim>\<open>undefined\<close> element contributes the empty text.
\<close>

fun ToString :: "env \<Rightarrow> jsval \<Rightarrow> string" where
  "ToString e Undefined = ''undefined''"
| "ToString e (Num n) = NumberToString e n"
| "ToString e (Str s) = s"
| "ToString e (Arr xs) =
     join_strings '','' (map (\<lambda>x. case x of Undefined \<Rightarrow> [] | _ \<Rightarrow> ToString e x) xs)"

text \<open>\<^verbatim>\<open>v.join(sep)\<close>: only an array has the method.\<close>

definition join_element :: "env \<Rightarrow> jsval \<Rightarrow> string" where
  "join_element e x = (case x of Undefined \<Rightarrow> [] | _ \<Rightarrow> ToString e x)"

definition js_join :: "env \<Rightarrow> string \<Rightarrow> jsval \<Rightarrow> error + string" where
  "js_join e sep v =
     (case v of
        Arr xs \<Rightarrow> Inr (join_strings sep (map (join_element e) xs))
      | _ \<Rightarrow> Inl TypeError)"

text \<open>The coercion of an operand of \<^verbatim>\<open>*\<close> and \<^verbatim>\<open>/\<close> to a number.\<close>

definition ToNumber :: "env \<Rightarrow> jsval \<Rightarrow> jsnum" where
  "ToNumber e v =
     (case v of
        Undefined \<Rightarrow> NaN
      | Num n \<Rightarrow> n
      | Str s \<Rightarrow> StringToNumber e s
      | Arr xs \<Rightarrow> StringToNumber e (ToString e (Arr xs)))"

text \<open>
  \<^verbatim>\<open>s.replace(pat, rep)\<close> with a text pattern replaces its first occurrence; none of
  the replacement texts of the module contains a dollar sign.
\<close>

fun replace_first :: "string \<Rightarrow> string \<Rightarrow> string \<Rightarrow> string" where
  "replace_first pat rep [] = (if pat = [] then rep else [])"
| "replace_first pat rep (c # cs) =
     (if take (length pat) (c # cs) = pat then rep @ drop (length pat) (c # cs)
      else c # replace_first pat rep cs)"

text \<open>Only a string has the method; on \<^verbatim>\<open>undefined\<close> the call raises.\<close>

definition js_replace :: "jsval \<Rightarrow> string \<Rightarrow> string \<Rightarrow> error + string" where
  "js_replace v pat rep =
     (case v of Str s \<Rightarrow> Inr (replace_first pat rep s) | _ \<Rightarrow> Inl TypeError)"

fun split_on :: "char \<Rightarrow> string \<Rightarrow> string list" where
  "split_on sep [] = [[]]"
| "split_on sep (c # cs) =
     (if c = sep then [] # split_on sep cs
      else (case split_on sep cs of [] \<Rightarrow> [[c]] | w # ws \<Rightarrow> (c # w) # ws))"

text \<open>
  The array pattern \<^verbatim>\<open>[r, g, b]\<close> iterates its argument: an array gives its elements, a
  string its characters, and \<^verbatim>\<open>undefined\<close> or a number is not iterable.
\<close>

definition iterate :: "jsval \<Rightarrow> error + jsval list" where
  "iterate v =
     (case v of
        Arr xs \<Rightarrow> Inr xs
      | Str s \<Rightarrow> Inr (map (\<lambda>c. Str [c]) s)
      | _ \<Rightarrow> Inl TypeError)"

subsection \<open>Formatting members of the registry\<close>

text \<open>
  \<^verbatim>\<open>normalize(color).join(", ")\<close>: the collaborator returns an array, so the call of
  \<^verbatim>\<open>join\<close> cannot fail.
\<close>

definition joined_normalized :: "env \<Rightarrow> jsval \<Rightarrow> string" where
  "joined_normalized e color =
     join_strings '', '' (map (join_element e) (normalize_js e color))"

definition hex_toString :: "env \<Rightarrow> jsval \<Rightarrow> string" where
  "hex_toString e color =
     (let color1 = (case color of
                      Arr xs \<Rightarrow> if length xs = 1 then js_index xs 0 else color
                    | _ \<Rightarrow> color)
      in ''#'' @ ToString e color1)"

definition rgb_toString :: "env \<Rightarrow> jsval \<Rightarrow> string" where
  "rgb_toString e color = ''rgb('' @ joined_normalized e color @ '')''"

definition hsl_toString :: "env \<Rightarrow> jsval \<Rightarrow> string" where
  "hsl_toString e color = ''hsl('' @ joined_normalized e color @ '')''"

definition cmyk_toString :: "env \<Rightarrow> jsval \<Rightarrow> string" where
  "cmyk_toString e color = ''cmyk('' @ joined_normalized e color @ '')''"

text \<open>
  \<^verbatim>\<open>rgb.toArray(color)\<close> calls \<^verbatim>\<open>color.replace\<close> first, so it raises on anything
  that is not a string.
\<close>

definition rgb_toArray :: "env \<Rightarrow> jsval \<Rightarrow> error + jsval list" where
  "rgb_toArray e color =
     bind_err (js_replace color ''rgb('' '''') (\<lambda>s1.
       let s2 = replace_first '')'' '''' s1;
           s3 = replace_first '' '' '''' s2;
           numbs = split_on CHR '','' s3
       in Inr (normalize_js e (Arr (map Str numbs))))"

section \<open>Converter facade: \<^verbatim>\<open>colorConvert\<close>\<close>

record ColorSet =
  hex :: jsval
  rgb :: jsval
  hsl :: jsval
  cmyk :: jsval

text \<open>\<open>None\<close> is the \<^verbatim>\<open>undefined\<close> that the \<^verbatim>\<open>default\<close> branch returns.\<close>

definition colorConvert :: "env \<Rightarrow> string \<Rightarrow> jsval \<Rightarrow> ColorSet option" where
  "colorConvert e type v =
     (if type = ''hex'' then
        Some \<lparr>hex = v, rgb = hex_toRgb e v, hsl = hex_toHsl e v, cmyk = hex_toCmyk e v\<rparr>
      else if type = ''rgb'' then
        Some \<lparr>hex = rgb_toHex e v, rgb = v, hsl = rgb_toHsl e v, cmyk = rgb_toCmyk e v\<rparr>
      else if type = ''hsl'' then
        Some \<lparr>hex = hsl_toHex e v, rgb = hsl_toRgb e v, hsl = v, cmyk = hsl_toCmyk e v\<rparr>
      else if type = ''cmyk'' then
        Some \<lparr>hex = cmyk_toHex e v, rgb = cmyk_toRgb e v, hsl = cmyk_toHsl e v, cmyk = v\<rparr>
      else None)"

section \<open>Contrast engine\<close>

record ContrastResult =
  yiq :: jsnum
  result :: string

definition yiqContrastRatio :: "env \<Rightarrow> jsval \<Rightarrow> error + ContrastResult" where
  "yiqContrastRatio e v =
     bind_err (iterate v) (\<lambda>xs.
       let r = ToNumber e (js_index xs 0);
           g = ToNumber e (js_index xs 1);
           b = ToNumber e (js_index xs 2);
           yiq = num_div (num_add (num_add (num_mul r (Fin 299)) (num_mul g (Fin 587)))
                                  (num_mul b (Fin 114)))
                         (Fin 1000)
       in Inr \<lparr>yiq = yiq, result = (if num_ge yiq (Fin 128) then ''black'' else ''white'')\<rparr>)"

definition yiqContrastColor :: "jsnum \<Rightarrow> string" where
  "yiqContrastColor yiq' = (if num_ge yiq' (Fin 128) then ''black'' else ''white'')"

text \<open>The callback that \<^verbatim>\<open>getLuminance\<close> maps over the channels.\<close>

definition linearize :: "jsnum \<Rightarrow> jsnum" where
  "linearize v0 =
     (let v = num_div v0 (Fin 255)
      in if num_le v (Fin 0.03928) then num_div v (Fin 12.92)
         else num_pow_2_4 (num_div (num_add v (Fin 0.055)) (Fin 1.055)))"

text \<open>\<^verbatim>\<open>rgb.map\<close> exists on arrays only.\<close>

definition getLuminance :: "env \<Rightarrow> jsval \<Rightarrow> error + jsnum" where
  "getLuminance e rgb' =
     (case rgb' of
        Arr xs \<Rightarrow>
          (let a = map (\<lambda>v. Num (linearize (ToNumber e v))) xs
           in Inr (num_add (num_add (num_mul (ToNumber e (js_index a 0)) (Fin 0.2126))
                                    (num_mul (ToNumber e (js_index a 1)) (Fin 0.7152)))
                           (num_mul (ToNumber e (js_index a 2)) (Fin 0.0722))))
      | _ \<Rightarrow> Inl TypeError)"

record ContrastLevels =
  aa_lvl_lg :: bool
  aa_lvl_sm :: bool
  aaa_lvl_lg :: bool
  aaa_lvl_sm :: bool

text \<open>The local \<^verbatim>\<open>ratio\<close> of \<^verbatim>\<open>calculateContrast\<close>, from the two luminances.\<close>

definition contrast_ratio :: "jsnum \<Rightarrow> jsnum \<Rightarrow> jsnum" where
  "contrast_ratio fg_luminance bg_luminance =
     (if num_gt fg_luminance bg_luminance
      then num_div (num_add bg_luminance (Fin 0.05)) (num_add fg_luminance (Fin 0.05))
      else num_div (num_add fg_luminance (Fin 0.05)) (num_add bg_luminance (Fin 0.05)))"

definition calculateContrast :: "env \<Rightarrow> jsval \<Rightarrow> jsval \<Rightarrow> error + ContrastLevels" where
  "calculateContrast e foreground background =
     (let foreground1 = (if typeof foreground = ''string'' then hex_toRgb e foreground
                         else foreground);
          background1 = (if typeof background = ''string'' then hex_toRgb e background
                         else background)
      in bind_err (getLuminance e foreground1) (\<lambda>fg_luminance.
         bind_err (getLuminance e background1) (\<lambda>bg_luminance.
           let ratio = contrast_ratio fg_luminance bg_luminance
           in Inr \<lparr>aa_lvl_lg = num_lt ratio (Fin (1 / 3)),
                   aa_lvl_sm = num_lt ratio (Fin (1 / 4.5)),
                   aaa_lvl_lg = num_lt ratio (Fin (1 / 4.5)),
                   aaa_lvl_sm = num_lt ratio (Fin (1 / 7))\<rparr>)))"

section \<open>Theme derivation pipeline\<close>

definition generateGrandients :: "env \<Rightarrow> jsval \<Rightarrow> error + jsval list" where
  "generateGrandients e hex' =
     (let isValidColor = colorValidate ''hex'' hex'
      in if isValidColor \<noteq> Some True then Inr []
         else
           (let rgbColor = hex_toRgb e hex';
                hexResult = gradstop e
                  \<lparr>stops = 8, inputFormat = ''hex'',
                   colorArray = [Str ''#212121'', Str (''#'' @ ToString e hex'), Str ''#FFFFFF'']\<rparr>
            in bind_err (js_join e '','' rgbColor) (\<lambda>joined.
                 Inr (gradstop e
                   \<lparr>stops = 8, inputFormat = ''rgb'',
                    colorArray = [js_index hexResult 1, Str (''rgb('' @ joined @ '')''),
                                  js_index hexResult 6]\<rparr>))))"

text \<open>
  \<^verbatim>\<open>Array.prototype.reverse\<close> reverses the array it is called on and returns that same
  array.  The ramp is therefore kept in a store of arrays, and the theme holds its
  address: what the \<^verbatim>\<open>gradients\<close> field shows is what the store holds there.
\<close>

type_synonym heap = "jsval list list"

definition alloc :: "heap \<Rightarrow> jsval list \<Rightarrow> nat \<times> heap" where
  "alloc h xs = (length h, h @ [xs])"

definition reverse_in_place :: "heap \<Rightarrow> nat \<Rightarrow> heap" where
  "reverse_in_place h a = h[a := rev (h ! a)]"

record Variable =
  primary :: "jsval list"
  secondary :: "jsval list"
  text_var :: "jsval list"
  contrast_var :: "jsval list"

record Theme =
  colors :: ColorSet
  contrast :: ContrastResult
  gradients :: nat
  cssVariable :: "string list"
  variable :: Variable

text \<open>
  The argument object \<^verbatim>\<open>{type, value}\<close> is a pair.  Reading \<^verbatim>\<open>colors.rgb\<close> when
  \<^verbatim>\<open>colorConvert\<close> returned \<^verbatim>\<open>undefined\<close> raises (\<open>member_of\<close>).  The names of the six
  declarations are string literals, so the filter on \<^verbatim>\<open>name !== null\<close> keeps each.
\<close>

definition member_of :: "'a option \<Rightarrow> error + 'a" where
  "member_of obj = (case obj of None \<Rightarrow> Inl TypeError | Some x \<Rightarrow> Inr x)"

definition generateCssColor :: "env \<Rightarrow> string \<times> jsval \<Rightarrow> heap \<Rightarrow> error + Theme \<times> heap" where
  "generateCssColor e input h =
     (case input of (type, v) \<Rightarrow>
        bind_err (member_of (colorConvert e type v)) (\<lambda>colors.
          bind_err (yiqContrastRatio e (rgb colors)) (\<lambda>contrast.
          bind_err (generateGrandients e (hex colors)) (\<lambda>ramp.
            let (gradients, h1) = alloc h ramp;
                textColor = (if result contrast = ''black'' then js_index (h1 ! gradients) 7
                             else Str (rgb_toString e (rgb colors)));
                secondaryColor = (if result contrast = ''black'' then js_index (h1 ! gradients) 1
                                  else js_index (h1 ! gradients) 7);
                darkColor = (if result contrast = ''black'' then js_index (h1 ! gradients) 7
                             else js_index (h1 ! gradients) 1)
            in bind_err (js_replace darkColor ''rgb'' ''rgba'') (\<lambda>d1.
                 let darkTransparent = replace_first '')'' '', 0.98)'' d1;
                     cssVariable0 =
                       [(''primary-color'', Str (rgb_toString e (rgb colors))),
                        (''secondary-color'', secondaryColor),
                        (''text-color'', textColor),
                        (''dark-color'', darkColor),
                        (''dark-transparent-color'', Str darkTransparent),
                        (''contrast-color'', Str (result contrast))];
                     primary = normalize_js e (rgb colors)
                 in bind_err (rgb_toArray e secondaryColor) (\<lambda>secondary.
                    bind_err (rgb_toArray e textColor) (\<lambda>text.
                      let variable =
                            \<lparr>primary = primary, secondary = secondary, text_var = text,
                             contrast_var =
                               (if result contrast = ''black''
                                then [Num (Fin 0), Num (Fin 0), Num (Fin 0)]
                                else [Num (Fin 255), Num (Fin 255), Num (Fin 255)])\<rparr>;
                          cssVariable1 =
                            map (\<lambda>(name, val). ''--'' @ name @ '': '' @ ToString e val @ '';'')
                                cssVariable0;
                          h2 = reverse_in_place h1 gradients;
                          cssVariable2 = cssVariable1 @
                            map (\<lambda>(index, gradient).
                                   ''--gradient-'' @
                                   NumberToString e (Fin (real ((index + 1) * 100))) @
                                   '': '' @ ToString e gradient @ '';'')
                                (enumerate 0 (h2 ! gradients))
                      in Inr (\<lparr>colors = colors, contrast = contrast, gradients = gradients,
                               cssVariable = cssVariable2, variable = variable\<rparr>, h2))))))))"

subsection \<open>\<^verbatim>\<open>calculateColor\<close>\<close>






section \<open>Stand-ins for the collaborators\<close>

text \<open>
  A concrete environment, used to run the model on explicit inputs.  The conversion from
  hex reads each pair of digits as a hexadecimal number; the other conversions answer
  for the colour \<^verbatim>\<open>#336699\<close> alone.  The interpolation returns a grey ramp with the
  number of stops asked for, from black upwards.  Numbers are printed as whole decimal
  numbers, texts of decimal digits are read back, and \<^verbatim>\<open>normalize\<close> keeps the entries
  of an array as they are.
\<close>

fun dec_digits :: "nat \<Rightarrow> string" where
  "dec_digits n =
     (if n < 10 then [''0123456789'' ! n]
      else dec_digits (n div 10) @ [''0123456789'' ! (n mod 10)])"

declare dec_digits.simps [simp del]

definition demo_NumberToString :: "jsnum \<Rightarrow> string" where
  "demo_NumberToString n =
     (case n of
        Fin x \<Rightarrow> (if x < 0 then ''-'' else []) @ dec_digits (nat \<lfloor>\<bar>x\<bar>\<rfloor>)
      | PInf \<Rightarrow> ''Infinity''
      | NInf \<Rightarrow> ''-Infinity''
      | NaN \<Rightarrow> ''NaN'')"

definition demo_StringToNumber :: "string \<Rightarrow> jsnum" where
  "demo_StringToNumber s =
     (if s \<noteq> [] \<and> list_all (\<lambda>c. c \<in> set ''0123456789'') s
      then Fin (real (foldl (\<lambda>acc c. 10 * acc + hex_digit_value c) 0 s))
      else NaN)"

definition demo_hex_toRgb :: "jsval \<Rightarrow> jsval" where
  "demo_hex_toRgb v =
     (case v of
        Str s \<Rightarrow> Arr [Num (Number_0x (take 2 s)), Num (Number_0x (take 2 (drop 2 s))),
                      Num (Number_0x (take 2 (drop 4 s)))]
      | _ \<Rightarrow> Arr [Num NaN, Num NaN, Num NaN])"

definition demo_gradstop :: "gradstop_options \<Rightarrow> jsval list" where
  "demo_gradstop opts =
     map (\<lambda>i. Str (''rgb('' @ dec_digits (32 * i) @ '', '' @ dec_digits (32 * i) @ '', '' @
                    dec_digits (32 * i) @ '')''))
         [0..<stops opts]"

definition demo_normalize :: "jsval \<Rightarrow> jsval list" where
  "demo_normalize v = (case v of Arr xs \<Rightarrow> xs | _ \<Rightarrow> [])"

definition demo_env :: env where
  "demo_env =
     \<lparr>hex_toRgb = demo_hex_toRgb,
      hex_toHsl = (\<lambda>v. Arr [Num (Fin 210), Num (Fin 50), Num (Fin 40)]),
      hex_toCmyk = (\<lambda>v. Arr [Num (Fin 67), Num (Fin 33), Num (Fin 0), Num (Fin 40)]),
      rgb_toHex = (\<lambda>v. Str ''336699''),
      rgb_toHsl = (\<lambda>v. Arr [Num (Fin 210), Num (Fin 50), Num (Fin 40)]),
      rgb_toCmyk = (\<lambda>v. Arr [Num (Fin 67), Num (Fin 33), Num (Fin 0), Num (Fin 40)]),
      hsl_toHex = (\<lambda>v. Str ''336699''),
      hsl_toRgb = (\<lambda>v. Arr [Num (Fin 51), Num (Fin 102), Num (Fin 153)]),
      hsl_toCmyk = (\<lambda>v. Arr [Num (Fin 67), Num (Fin 33), Num (Fin 0), Num (Fin 40)]),
      cmyk_toHex = (\<lambda>v. Str ''336699''),
      cmyk_toRgb = (\<lambda>v. Arr [Num (Fin 51), Num (Fin 102), Num (Fin 153)]),
      cmyk_toHsl = (\<lambda>v. Arr [Num (Fin 210), Num (Fin 50), Num (Fin 40)]),
      gradstop = demo_gradstop,
      normalize_js = demo_normalize,
      StringToNumber = demo_StringToNumber,
      NumberToString = demo_NumberToString\<rparr>"

section \<open>Notions of the specification\<close>

text \<open>A channel that is a number and at most the bound.\<close>

definition number_at_most :: "jsval \<Rightarrow> real \<Rightarrow> bool" where
  "number_at_most x b = (case x of Num n \<Rightarrow> num_le n (Fin b) | _ \<Rightarrow> False)"





text \<open>An rgb triple of finite numbers.\<close>

definition rgb_triple :: "real \<Rightarrow> real \<Rightarrow> real \<Rightarrow> jsval" where
  "rgb_triple r g b = Arr [Num (Fin r), Num (Fin g), Num (Fin b)]"







section \<open>Validation\<close>






lemma validate_hex_Str:
  "colorValidate ''hex'' (Str s) = Some (length s = 6 \<and> \<not> isNaN (Number_0x s))"
  by (simp add: colorValidate_def getColorProperties_def)



lemma hex_eval:
  "colorValidate ''hex'' (Str ''GGGGGG'') = Some False"
  "colorValidate ''hex'' (Str ''000000'') = Some True"
  "colorValidate ''hex'' (Str ''336699'') = Some True"
  "colorValidate ''hex'' (Str ''12345 '') = Some True"
  "Number_0x ''000000'' = Fin 0"
  by (simp_all add: validate_hex_Str Number_0x_def trim_end_def is_StrWhiteSpaceChar_def
        is_hex_digit_def hex_digit_table_def hex_digit_value_def isNaN_def)




lemma number_item: "(typeof x = ''number'' \<and> js_le x (Num (Fin b))) = number_at_most x b"
  by (cases x) (simp_all add: number_at_most_def)

lemma length3_conv: "(length xs = 3) = (\<exists>a b c. xs = [a, b, c])"
  by (auto simp: numeral_3_eq_3 length_Suc_conv)

lemma length4_conv: "(length xs = 4) = (\<exists>a b c d. xs = [a, b, c, d])"
  by (auto simp: numeral_eq_Suc length_Suc_conv)

lemma validate_rgb:
  "colorValidate ''rgb'' v =
     Some (\<exists>a b c. v = Arr [a, b, c] \<and> number_at_most a 255 \<and> number_at_most b 255 \<and>
                    number_at_most c 255)"
proof (cases v)
  case (Arr xs)
  show ?thesis
  proof (cases "length xs = 3")
    case True
    then obtain a b c where "xs = [a, b, c]" by (auto simp: length3_conv)
    with Arr show ?thesis
      by (simp add: colorValidate_def getColorProperties_def number_item)
  next
    case False
    with Arr show ?thesis
      by (auto simp add: colorValidate_def getColorProperties_def)
  qed
qed (simp_all add: colorValidate_def getColorProperties_def)

lemma validate_hsl:
  "colorValidate ''hsl'' v =
     Some (\<exists>a b c. v = Arr [a, b, c] \<and> number_at_most a 360 \<and> number_at_most b 100 \<and>
                    number_at_most c 100)"
proof (cases v)
  case (Arr xs)
  show ?thesis
  proof (cases "length xs = 3")
    case True
    then obtain a b c where "xs = [a, b, c]" by (auto simp: length3_conv)
    with Arr show ?thesis
      by (simp add: colorValidate_def getColorProperties_def number_item
            js_index_def)
  next
    case False
    with Arr show ?thesis
      by (auto simp add: colorValidate_def getColorProperties_def)
  qed
qed (simp_all add: colorValidate_def getColorProperties_def)

lemma validate_cmyk:
  "colorValidate ''cmyk'' v =
     Some (\<exists>a b c d. v = Arr [a, b, c, d] \<and> number_at_most a 100 \<and> number_at_most b 100 \<and>
                      number_at_most c 100 \<and> number_at_most d 100)"
proof (cases v)
  case (Arr xs)
  show ?thesis
  proof (cases "length xs = 4")
    case True
    then obtain a b c d where "xs = [a, b, c, d]" by (auto simp: length4_conv)
    with Arr show ?thesis
      by (simp add: colorValidate_def getColorProperties_def number_item)
  next
    case False
    with Arr show ?thesis
      by (auto simp add: colorValidate_def getColorProperties_def)
  qed
qed (simp_all add: colorValidate_def getColorProperties_def)

text \<open>
  C4.  For the numeric models the validator checks the number of entries, that each is
  a number, and an upper bound, and nothing below: \<^verbatim>\<open>rgb\<close> is valid exactly for three
  numbers at most 255, \<^verbatim>\<open>hsl\<close> for three numbers at most 360, 100 and 100 by position,
  \<^verbatim>\<open>cmyk\<close> for four numbers at most 100.  So \<^verbatim>\<open>[0,0,0]\<close> and \<^verbatim>\<open>[-1,0,0]\<close> are valid
  rgb and \<^verbatim>\<open>[256,0,0]\<close> is not, \<^verbatim>\<open>[360,100,100]\<close> is valid hsl and \<^verbatim>\<open>[361,0,0]\<close> is
  not, and five entries are never valid cmyk.
\<close>

theorem colorValidate_numeric_upper_bounds:
  "colorValidate ''rgb'' v =
     Some (\<exists>a b c. v = Arr [a, b, c] \<and> number_at_most a 255 \<and> number_at_most b 255 \<and>
                    number_at_most c 255)
   \<and> colorValidate ''hsl'' v =
     Some (\<exists>a b c. v = Arr [a, b, c] \<and> number_at_most a 360 \<and> number_at_most b 100 \<and>
                    number_at_most c 100)
   \<and> colorValidate ''cmyk'' v =
     Some (\<exists>a b c d. v = Arr [a, b, c, d] \<and> number_at_most a 100 \<and> number_at_most b 100 \<and>
                      number_at_most c 100 \<and> number_at_most d 100)
   \<and> number_at_most (Num (Fin x)) bound = (x \<le> bound)
   \<and> colorValidate ''rgb'' (rgb_triple 0 0 0) = Some True
   \<and> colorValidate ''rgb'' (rgb_triple (- 1) 0 0) = Some True
   \<and> colorValidate ''rgb'' (rgb_triple 256 0 0) = Some False
   \<and> colorValidate ''hsl'' (rgb_triple 360 100 100) = Some True
   \<and> colorValidate ''hsl'' (rgb_triple 361 0 0) = Some False
   \<and> colorValidate ''cmyk'' (Arr [c1, c2, c3, c4, c5]) = Some False"
  by (simp add: validate_rgb validate_hsl validate_cmyk number_at_most_def rgb_triple_def)

section \<open>Conversion and the YIQ heuristic\<close>

text \<open>
  C8.  For each of the four model tags the set returned by \<^verbatim>\<open>colorConvert\<close> holds the
  value itself under the field of that model, and under the other three fields what the
  three conversions of the collaborator from that model give.
\<close>

theorem colorConvert_own_field_verbatim:
  "colorConvert e ''hex'' v =
     Some \<lparr>hex = v, rgb = hex_toRgb e v, hsl = hex_toHsl e v, cmyk = hex_toCmyk e v\<rparr>
   \<and> colorConvert e ''rgb'' v =
     Some \<lparr>hex = rgb_toHex e v, rgb = v, hsl = rgb_toHsl e v, cmyk = rgb_toCmyk e v\<rparr>
   \<and> colorConvert e ''hsl'' v =
     Some \<lparr>hex = hsl_toHex e v, rgb = hsl_toRgb e v, hsl = v, cmyk = hsl_toCmyk e v\<rparr>
   \<and> colorConvert e ''cmyk'' v =
     Some \<lparr>hex = cmyk_toHex e v, rgb = cmyk_toRgb e v, hsl = cmyk_toHsl e v, cmyk = v\<rparr>"
  by (simp add: colorConvert_def)



section \<open>Contrast by relative luminance\<close>

lemma contrast_ratio_sym: "contrast_ratio x y = contrast_ratio y x"
  by (cases x; cases y) (auto simp: contrast_ratio_def num_gt_def num_lt_def)

text \<open>
  C10.  \<^verbatim>\<open>calculateContrast\<close> is symmetric: for all inputs, whatever their type, swapping
  foreground and background gives the same result, the four booleans or the error.
\<close>

theorem calculateContrast_symmetric: "calculateContrast e a b = calculateContrast e b a"
proof -
  have "bind_err m (\<lambda>x. bind_err n (\<lambda>y. f (contrast_ratio x y))) =
        bind_err n (\<lambda>y. bind_err m (\<lambda>x. f (contrast_ratio y x)))"
    for m n :: "error + jsnum" and f :: "jsnum \<Rightarrow> error + ContrastLevels"
  proof (cases m; cases n)
    fix e1 e2 :: error
    assume "m = Inl e1" "n = Inl e2"
    then show ?thesis by (cases e1; cases e2) (simp add: bind_err_def)
  qed (simp_all add: bind_err_def contrast_ratio_sym)
  then show ?thesis
    unfolding calculateContrast_def Let_def .
qed















section \<open>Gradient seed and theme\<close>

lemma generateGrandients_invalid:
  "colorValidate ''hex'' h \<noteq> Some True \<Longrightarrow> generateGrandients e h = Inr []"
  by (simp add: generateGrandients_def)








lemma generateCssColor_empty_ramp:
  assumes "generateGrandients e (hex cs) = Inr []" "colorConvert e type v = Some cs"
  shows "generateCssColor e (type, v) h = Inl TypeError"
proof (cases "yiqContrastRatio e (rgb cs)")
  case (Inl err)
  then show ?thesis using assms
    by (cases err) (simp add: generateCssColor_def member_of_def bind_err_def)
next
  case (Inr c)
  then show ?thesis using assms
    by (simp add: generateCssColor_def member_of_def bind_err_def alloc_def js_index_def
          js_replace_def)
qed

text \<open>
  C1 does not hold of the code.  Whenever the hex field of the converted colours fails
  the validation, the ramp is empty, the dark colour read from it is \<^verbatim>\<open>undefined\<close>, and
  \<^verbatim>\<open>darkColor.replace\<close> raises a \<^verbatim>\<open>TypeError\<close>: \<^verbatim>\<open>generateCssColor\<close> returns no theme,
  whatever the collaborators are.
\<close>

theorem generateCssColor_invalid_hex_raises:
  assumes "colorConvert e type v = Some cs" "colorValidate ''hex'' (hex cs) = Some False"
  shows "generateCssColor e (type, v) h = Inl TypeError"
  by (rule generateCssColor_empty_ramp [OF generateGrandients_invalid]) (simp_all add: assms)

theorem generateCssColor_invalid_hex_raises_witness:
  "colorValidate ''hex'' (Str ''GGGGGG'') = Some False
   \<and> generateCssColor demo_env (''hex'', Str ''GGGGGG'') [] = Inl TypeError"
proof -
  let ?cs = "\<lparr>hex = Str ''GGGGGG'', rgb = hex_toRgb demo_env (Str ''GGGGGG''),
              hsl = hex_toHsl demo_env (Str ''GGGGGG''),
              cmyk = hex_toCmyk demo_env (Str ''GGGGGG'')\<rparr>"
  have c: "colorConvert demo_env ''hex'' (Str ''GGGGGG'') = Some ?cs"
    by (simp add: colorConvert_def)
  have v: "colorValidate ''hex'' (hex ?cs) = Some False"
    by (simp add: hex_eval)
  from generateCssColor_invalid_hex_raises [OF c v, of "[]"] show ?thesis
    by (simp add: hex_eval)
qed








end
